theory Spec2Isabelle
  imports Main
begin

section \<open>Data model (executor/executor.go, parser/parser.go)\<close>

text \<open>
  Go strings and byte slices are sequences of bytes; both are modelled as \<open>string\<close>
  (a list of 8-bit characters).  Go's \<open>uint\<close>, \<open>uint16\<close> and \<open>rune\<close> values that
  occur here are non-negative and far below the width of their types, so they are
  natural numbers; \<open>x >> k\<close> is \<open>x div 2 ^ k\<close>, \<open>x & (2 ^ k - 1)\<close> is
  \<open>x mod 2 ^ k\<close>, \<open>x << k\<close> is \<open>x * 2 ^ k\<close>, and \<open>|\<close> of fields that occupy
  disjoint bit ranges is \<open>+\<close>.
\<close>

datatype ExecutorType = Base64Type | PlainType

datatype ShellType = AutoShell | CMDShell | PowerShellShell | ShShell

fun ExecutorType_String :: "ExecutorType \<Rightarrow> string" where
  "ExecutorType_String Base64Type = ''base64''"
| "ExecutorType_String PlainType = ''plain''"

fun ShellType_String :: "ShellType \<Rightarrow> string" where
  "ShellType_String AutoShell = ''auto''"
| "ShellType_String CMDShell = ''cmd''"
| "ShellType_String PowerShellShell = ''powershell''"
| "ShellType_String ShShell = ''sh''"

text \<open>
  Errors are values.  \<open>Errorf\<close> is an error made by \<open>fmt.Errorf\<close> from a constant
  message; \<open>Wrapped p e\<close> is \<open>fmt.Errorf(p ++ "%v", e)\<close>; \<open>CorruptInputError n\<close> is
  the error of \<open>encoding/base64\<close> with its input offset; \<open>ProcessError\<close> is whatever
  \<open>cmd.Run\<close> reports.
\<close>

datatype error =
    Errorf string
  | CorruptInputError int
  | ProcessError string
  | Wrapped string error

text \<open>The host: \<open>runtime.GOOS\<close> is a parameter of everything that consults it.\<close>

definition IsWindows :: "string \<Rightarrow> bool" where
  "IsWindows goos = (goos = ''windows'')"

text \<open>\<open>exec.Command(name, arg...)\<close>: the program and its argument vector.\<close>

record Cmd =
  program :: string
  arguments :: "string list"

definition Command :: "string \<Rightarrow> string list \<Rightarrow> Cmd" where
  "Command name args = \<lparr>program = name, arguments = args\<rparr>"

section \<open>Shell resolver (executor/executor.go)\<close>

definition GetShellCommand :: "string \<Rightarrow> string \<Rightarrow> ShellType \<Rightarrow> Cmd" where
  "GetShellCommand goos command shellType =
     (let shellType = (if shellType = AutoShell
                       then (if IsWindows goos then CMDShell else ShShell)
                       else shellType)
      in case shellType of
           CMDShell \<Rightarrow> Command ''cmd'' [''/C'', command]
         | PowerShellShell \<Rightarrow> Command ''powershell'' [''-Command'', command]
         | ShShell \<Rightarrow> Command ''sh'' [''-c'', command]
         | AutoShell \<Rightarrow>
             (if IsWindows goos then Command ''cmd'' [''/C'', command]
              else Command ''sh'' [''-c'', command]))"

text \<open>\<open>fmt.Sprintf("echo '%s' | base64 -d | sh", encodedCommand)\<close>\<close>

definition sh_pipeline :: "string \<Rightarrow> string" where
  "sh_pipeline encodedCommand = ''echo '' @ [CHR 0x27] @ encodedCommand @ [CHR 0x27] @ '' | base64 -d | sh''"

definition GetShellCommandForBase64 :: "string \<Rightarrow> string \<Rightarrow> ShellType \<Rightarrow> Cmd" where
  "GetShellCommandForBase64 goos encodedCommand shellType =
     (let shellType = (if shellType = AutoShell
                       then (if IsWindows goos then CMDShell else ShShell)
                       else shellType)
      in case shellType of
           CMDShell \<Rightarrow> Command ''cmd'' [''/C'', encodedCommand]
         | PowerShellShell \<Rightarrow> Command ''powershell'' [''-EncodedCommand'', encodedCommand]
         | ShShell \<Rightarrow> Command ''sh'' [''-c'', sh_pipeline encodedCommand]
         | AutoShell \<Rightarrow>
             (if IsWindows goos then Command ''cmd'' [''/C'', encodedCommand]
              else Command ''sh'' [''-c'', sh_pipeline encodedCommand]))"

section \<open>Go's encoding/base64, StdEncoding\<close>

definition encodeStd :: string where
  "encodeStd = ''ABCDEFGHIJKLMNOPQRSTUVWXYZabcdefghijklmnopqrstuvwxyz0123456789+/''"

definition padChar :: char where
  "padChar = CHR ''=''"

definition enc6 :: "nat \<Rightarrow> char" where
  "enc6 v = encodeStd ! v"

text \<open>
  \<open>Encoding.Encode\<close>: three source bytes become four characters; a remainder of one
  or two bytes becomes two or three characters and padding.
\<close>

fun EncodeToString :: "string \<Rightarrow> string" where
  "EncodeToString [] = []"
| "EncodeToString [s0] =
     (let val = of_char s0 * 65536
      in [enc6 (val div 262144 mod 64), enc6 (val div 4096 mod 64), padChar, padChar])"
| "EncodeToString [s0, s1] =
     (let val = of_char s0 * 65536 + of_char s1 * 256
      in [enc6 (val div 262144 mod 64), enc6 (val div 4096 mod 64),
          enc6 (val div 64 mod 64), padChar])"
| "EncodeToString (s0 # s1 # s2 # src) =
     (let val = of_char s0 * 65536 + of_char s1 * 256 + of_char s2
      in [enc6 (val div 262144 mod 64), enc6 (val div 4096 mod 64),
          enc6 (val div 64 mod 64), enc6 (val mod 64)] @ EncodeToString src)"

text \<open>
  \<open>decodeMap\<close>: the position of a character in the alphabet (\<open>None\<close> is Go's 0xff).
\<close>

definition decodeMap :: "char \<Rightarrow> nat option" where
  "decodeMap c = map_of (zip encodeStd [0..<64]) c"

definition is_newline :: "char \<Rightarrow> bool" where
  "is_newline c = (c = CHR 0x0A \<or> c = CHR 0x0D)"

text \<open>
  The bytes of one quantum (\<open>decodeQuantum\<close>, after its loop): \<open>dbuf\<close> holds
  \<open>dlen\<close> six-bit values (missing ones are zero), which give \<open>dlen - 1\<close> bytes.
  StdEncoding is not strict: the unused low bits are not checked.
\<close>

definition quantum_bytes :: "nat list \<Rightarrow> string" where
  "quantum_bytes dbuf =
     (let d = dbuf @ replicate (4 - length dbuf) 0;
          val = d ! 0 * 262144 + d ! 1 * 4096 + d ! 2 * 64 + d ! 3
      in take (length dbuf - 1)
           [char_of (val div 65536), char_of (val div 256), char_of val])"

text \<open>
  \<open>Encoding.Decode\<close> with \<open>decodeQuantum\<close>, as one pass over the input.
  \<open>dbuf\<close> is the quantum collected so far (\<open>j = length dbuf\<close>), \<open>si\<close> the offset of
  the next source byte.  The fast paths of \<open>Decode\<close> (eight or four alphabet
  characters at once) give what \<open>decodeQuantum\<close> gives and are not modelled apart.
  As the package documents for \<open>DecodeString\<close>, new line characters (carriage
  return and line feed) are ignored, wherever they stand.
  The partial output that Go returns beside an error is dropped: the only caller
  ignores it.
\<close>

fun skip_newlines :: "string \<Rightarrow> int \<Rightarrow> string \<times> int" where
  "skip_newlines [] si = ([], si)"
| "skip_newlines (c # src) si =
     (if is_newline c then skip_newlines src (si + 1) else (c # src, si))"

fun Decode :: "nat list \<Rightarrow> int \<Rightarrow> string \<Rightarrow> error + string" where
  "Decode dbuf si [] =
     (if dbuf = [] then Inr []
      else Inl (CorruptInputError (si - int (length dbuf))))"
| "Decode dbuf si (c # src) =
     (case decodeMap c of
        Some out \<Rightarrow>
          (if length dbuf = 3
           then (case Decode [] (si + 1) src of
                   Inl e \<Rightarrow> Inl e
                 | Inr rest \<Rightarrow> Inr (quantum_bytes (dbuf @ [out]) @ rest))
           else Decode (dbuf @ [out]) (si + 1) src)
      | None \<Rightarrow>
          if is_newline c then Decode dbuf (si + 1) src
          else if c \<noteq> padChar then Inl (CorruptInputError si)
          else if length dbuf < 2 then Inl (CorruptInputError si)
          else if length dbuf = 2 then
            (case skip_newlines src (si + 1) of
               ([], si') \<Rightarrow> Inl (CorruptInputError si')
             | (c' # src', si') \<Rightarrow>
                 if c' \<noteq> padChar then Inl (CorruptInputError (si' - 1))
                 else (case skip_newlines src' (si' + 1) of
                         ([], _) \<Rightarrow> Inr (quantum_bytes dbuf)
                       | (_ # _, si'') \<Rightarrow> Inl (CorruptInputError si'')))
          else
            (case skip_newlines src (si + 1) of
               ([], _) \<Rightarrow> Inr (quantum_bytes dbuf)
             | (_ # _, si') \<Rightarrow> Inl (CorruptInputError si')))"

definition DecodeString :: "string \<Rightarrow> error + string" where
  "DecodeString s = Decode [] 0 s"

section \<open>Go's string to rune conversion and unicode/utf16\<close>

definition RuneError :: nat where
  "RuneError = 0xFFFD"

text \<open>
  The table \<open>first\<close> of \<open>unicode/utf8\<close> with its accept ranges, for a leading byte
  from 0x80 on: the length of the sequence and the range allowed for its second
  byte; \<open>None\<close> is an invalid leading byte.
\<close>

definition first :: "nat \<Rightarrow> (nat \<times> nat \<times> nat) option" where
  "first p0 =
     (if p0 < 0xC2 then None
      else if p0 < 0xE0 then Some (2, 0x80, 0xBF)
      else if p0 = 0xE0 then Some (3, 0xA0, 0xBF)
      else if p0 < 0xED then Some (3, 0x80, 0xBF)
      else if p0 = 0xED then Some (3, 0x80, 0x9F)
      else if p0 < 0xF0 then Some (3, 0x80, 0xBF)
      else if p0 = 0xF0 then Some (4, 0x90, 0xBF)
      else if p0 < 0xF4 then Some (4, 0x80, 0xBF)
      else if p0 = 0xF4 then Some (4, 0x80, 0x8F)
      else None)"

text \<open>\<open>utf8.DecodeRuneInString\<close>: the rune at the head of the string and its width.\<close>

fun decodeRune :: "string \<Rightarrow> nat \<times> nat" where
  "decodeRune [] = (RuneError, 0)"
| "decodeRune (c0 # s) =
     (let p0 = of_char c0 in
      if p0 < 0x80 then (p0, 1)
      else case first p0 of
        None \<Rightarrow> (RuneError, 1)
      | Some (sz, lo, hi) \<Rightarrow>
          if Suc (length s) < sz then (RuneError, 1)
          else let b1 = of_char (s ! 0) in
            if b1 < lo \<or> hi < b1 then (RuneError, 1)
            else if sz \<le> 2 then (p0 mod 32 * 64 + b1 mod 64, 2)
            else let b2 = of_char (s ! 1) in
              if b2 < 0x80 \<or> 0xBF < b2 then (RuneError, 1)
              else if sz \<le> 3 then (p0 mod 16 * 4096 + b1 mod 64 * 64 + b2 mod 64, 3)
              else let b3 = of_char (s ! 2) in
                if b3 < 0x80 \<or> 0xBF < b3 then (RuneError, 1)
                else (p0 mod 8 * 262144 + b1 mod 64 * 4096 + b2 mod 64 * 64 + b3 mod 64, 4))"

text \<open>
  \<open>[]rune(command)\<close>: rune after rune; every rune of a non-empty string has a
  positive width, so the conversion ends.
\<close>

function stringToRunes :: "string \<Rightarrow> nat list" where
  "stringToRunes [] = []"
| "stringToRunes (c0 # s) =
     (case decodeRune (c0 # s) of (r, n) \<Rightarrow> r # stringToRunes (drop n (c0 # s)))"
  by pat_completeness auto
termination
proof (relation "measure length", goal_cases)
  case 1
  show ?case by simp
next
  case (2 c0 s r n)
  from 2 [symmetric] have "0 < n"
    by (auto simp: Let_def split: if_splits option.splits prod.splits)
  then show ?case by simp
qed

text \<open>\<open>utf16.EncodeRune\<close> and \<open>utf16.Encode\<close>\<close>

definition EncodeRune :: "nat \<Rightarrow> nat \<times> nat" where
  "EncodeRune r =
     (if r < 0x10000 \<or> 0x10FFFF < r then (0xFFFD, 0xFFFD)
      else let r = r - 0x10000 in (0xD800 + r div 1024 mod 1024, 0xDC00 + r mod 1024))"

fun utf16_Encode :: "nat list \<Rightarrow> nat list" where
  "utf16_Encode [] = []"
| "utf16_Encode (v # s) =
     (if v < 0xD800 \<or> (0xE000 \<le> v \<and> v < 0x10000) then [v]
      else if 0x10000 \<le> v \<and> v \<le> 0x10FFFF
           then (case EncodeRune v of (r1, r2) \<Rightarrow> [r1, r2])
           else [0xFFFD]) @ utf16_Encode s"

section \<open>Base64 strategy (executor/base64_executor.go)\<close>

record Base64Executor =
  be_shellType :: ShellType
  be_defaultCommand :: string

text \<open>
  The loop \<open>for i, codePoint := range utf16CodePoints\<close> writing the low byte at
  \<open>i*2\<close> and the high byte at \<open>i*2+1\<close> of the buffer.
\<close>

fun utf16Bytes_loop :: "nat list \<Rightarrow> nat \<Rightarrow> string \<Rightarrow> string" where
  "utf16Bytes_loop [] i utf16Bytes = utf16Bytes"
| "utf16Bytes_loop (codePoint # rest) i utf16Bytes =
     utf16Bytes_loop rest (i + 1)
       (utf16Bytes[i * 2 := char_of (codePoint mod 256),
                   i * 2 + 1 := char_of (codePoint div 256 mod 256)])"

definition encodeForPowerShell :: "string \<Rightarrow> string" where
  "encodeForPowerShell command =
     (let utf16CodePoints = utf16_Encode (stringToRunes command);
          utf16Bytes = replicate (length utf16CodePoints * 2) (CHR 0x00)
      in EncodeToString (utf16Bytes_loop utf16CodePoints 0 utf16Bytes))"

definition getDefaultBase64Command :: "string \<Rightarrow> string" where
  "getDefaultBase64Command goos =
     (if IsWindows goos then
        (let command = ''ipconfig'';
             utf16CodePoints = utf16_Encode (stringToRunes command);
             utf16Bytes = replicate (length utf16CodePoints * 2) (CHR 0x00)
         in EncodeToString (utf16Bytes_loop utf16CodePoints 0 utf16Bytes))
      else EncodeToString ''ifconfig'')"

definition NewBase64Executor :: "string \<Rightarrow> Base64Executor" where
  "NewBase64Executor goos =
     \<lparr>be_shellType = (if IsWindows goos then PowerShellShell else AutoShell),
      be_defaultCommand = getDefaultBase64Command goos\<rparr>"

definition NewBase64ExecutorWithShell :: "string \<Rightarrow> ShellType \<Rightarrow> Base64Executor" where
  "NewBase64ExecutorWithShell goos shellType =
     \<lparr>be_shellType = shellType, be_defaultCommand = getDefaultBase64Command goos\<rparr>"

definition Base64Executor_EncodeCommand :: "Base64Executor \<Rightarrow> string \<Rightarrow> string" where
  "Base64Executor_EncodeCommand be command =
     (if be_shellType be = PowerShellShell then encodeForPowerShell command
      else EncodeToString command)"

definition Base64Executor_DecodeCommand :: "Base64Executor \<Rightarrow> string \<Rightarrow> error + string" where
  "Base64Executor_DecodeCommand be encodedCommand =
     (case DecodeString encodedCommand of
        Inl err \<Rightarrow> Inl (Wrapped ''failed to decode base64: '' err)
      | Inr decoded \<Rightarrow> Inr decoded)"

text \<open>
  Running a command is the host's business: \<open>run\<close> stands for \<open>cmd.Run()\<close> with
  the process's standard streams attached, and answers with the error, if any.
  An execution returns the commands it has run, in order, and its error result.
\<close>

type_synonym runner = "Cmd \<Rightarrow> error option"

definition Base64Executor_executeCommand ::
  "string \<Rightarrow> runner \<Rightarrow> Base64Executor \<Rightarrow> string \<Rightarrow> Cmd list \<times> error option" where
  "Base64Executor_executeCommand goos run be command =
     (let cmd = GetShellCommand goos command (be_shellType be)
      in case run cmd of
           Some err \<Rightarrow> ([cmd], Some (Wrapped ''command execution failed: '' err))
         | None \<Rightarrow> ([cmd], None))"

definition executeBase64CommandDirect ::
  "string \<Rightarrow> runner \<Rightarrow> Base64Executor \<Rightarrow> string \<Rightarrow> Cmd list \<times> error option" where
  "executeBase64CommandDirect goos run be encodedCommand =
     (let cmd = GetShellCommandForBase64 goos encodedCommand (be_shellType be)
      in case run cmd of
           Some err \<Rightarrow> ([cmd], Some (Wrapped ''base64 command execution failed: '' err))
         | None \<Rightarrow> ([cmd], None))"

definition Base64Executor_ExecuteCommand ::
  "string \<Rightarrow> runner \<Rightarrow> Base64Executor \<Rightarrow> string \<Rightarrow> Cmd list \<times> error option" where
  "Base64Executor_ExecuteCommand goos run be encodedCommand =
     (let encodedCommand = (if encodedCommand = [] then be_defaultCommand be else encodedCommand)
      in if be_shellType be = PowerShellShell \<or> be_shellType be = ShShell
         then executeBase64CommandDirect goos run be encodedCommand
         else case Base64Executor_DecodeCommand be encodedCommand of
                Inl err \<Rightarrow> ([], Some (Wrapped ''failed to decode base64: '' err))
              | Inr decoded \<Rightarrow> Base64Executor_executeCommand goos run be decoded)"

section \<open>Plain strategy (executor/plain_executor.go)\<close>

record PlainExecutor =
  pe_shellType :: ShellType
  pe_defaultCommand :: string

definition getDefaultPlainCommand :: "string \<Rightarrow> string" where
  "getDefaultPlainCommand goos = (if IsWindows goos then ''ipconfig'' else ''ifconfig'')"

definition NewPlainExecutor :: "string \<Rightarrow> PlainExecutor" where
  "NewPlainExecutor goos =
     \<lparr>pe_shellType = AutoShell, pe_defaultCommand = getDefaultPlainCommand goos\<rparr>"

definition NewPlainExecutorWithShell :: "string \<Rightarrow> ShellType \<Rightarrow> PlainExecutor" where
  "NewPlainExecutorWithShell goos shellType =
     \<lparr>pe_shellType = shellType, pe_defaultCommand = getDefaultPlainCommand goos\<rparr>"

definition PlainExecutor_executeCommand ::
  "string \<Rightarrow> runner \<Rightarrow> PlainExecutor \<Rightarrow> string \<Rightarrow> Cmd list \<times> error option" where
  "PlainExecutor_executeCommand goos run pe command =
     (let cmd = GetShellCommand goos command (pe_shellType pe)
      in case run cmd of
           Some err \<Rightarrow> ([cmd], Some (Wrapped ''command execution failed: '' err))
         | None \<Rightarrow> ([cmd], None))"

definition PlainExecutor_ExecuteCommand ::
  "string \<Rightarrow> runner \<Rightarrow> PlainExecutor \<Rightarrow> string \<Rightarrow> Cmd list \<times> error option" where
  "PlainExecutor_ExecuteCommand goos run pe command =
     (let command = (if command = [] then pe_defaultCommand pe else command)
      in PlainExecutor_executeCommand goos run pe command)"

definition PlainExecutor_EncodeCommand :: "PlainExecutor \<Rightarrow> string \<Rightarrow> string" where
  "PlainExecutor_EncodeCommand pe command = command"

definition PlainExecutor_DecodeCommand :: "PlainExecutor \<Rightarrow> string \<Rightarrow> error + string" where
  "PlainExecutor_DecodeCommand pe command = Inr command"

section \<open>The strategy interface and the factory (executor/interface.go, executor/executor.go)\<close>

datatype CommandExecutor = Base64 Base64Executor | Plain PlainExecutor

fun ExecuteCommand :: "string \<Rightarrow> runner \<Rightarrow> CommandExecutor \<Rightarrow> string \<Rightarrow> Cmd list \<times> error option" where
  "ExecuteCommand goos run (Base64 be) command = Base64Executor_ExecuteCommand goos run be command"
| "ExecuteCommand goos run (Plain pe) command = PlainExecutor_ExecuteCommand goos run pe command"

fun EncodeCommand :: "CommandExecutor \<Rightarrow> string \<Rightarrow> string" where
  "EncodeCommand (Base64 be) command = Base64Executor_EncodeCommand be command"
| "EncodeCommand (Plain pe) command = PlainExecutor_EncodeCommand pe command"

fun DecodeCommand :: "CommandExecutor \<Rightarrow> string \<Rightarrow> error + string" where
  "DecodeCommand (Base64 be) encodedCommand = Base64Executor_DecodeCommand be encodedCommand"
| "DecodeCommand (Plain pe) encodedCommand = PlainExecutor_DecodeCommand pe encodedCommand"

fun executor_shellType :: "CommandExecutor \<Rightarrow> ShellType" where
  "executor_shellType (Base64 be) = be_shellType be"
| "executor_shellType (Plain pe) = pe_shellType pe"

definition CreateExecutor :: "string \<Rightarrow> ExecutorType \<Rightarrow> CommandExecutor" where
  "CreateExecutor goos executorType =
     (case executorType of
        Base64Type \<Rightarrow> Base64 (NewBase64Executor goos)
      | PlainType \<Rightarrow> Plain (NewPlainExecutor goos))"

definition CreateExecutorWithShell :: "string \<Rightarrow> ExecutorType \<Rightarrow> ShellType \<Rightarrow> CommandExecutor" where
  "CreateExecutorWithShell goos executorType shellType =
     (case executorType of
        Base64Type \<Rightarrow> Base64 (NewBase64ExecutorWithShell goos shellType)
      | PlainType \<Rightarrow> Plain (NewPlainExecutorWithShell goos shellType))"

section \<open>Configuration (parser/parser.go) and the entry point (main.go)\<close>

datatype LogLevel = DEBUG | INFO | WARN | ERROR | FATAL

record Config =
  LogLevel :: LogLevel
  ShellType :: ShellType
  ExecutorType :: ExecutorType
  Help :: bool
  Action :: string
  Args :: "string list"

definition ValidateExecutorShellCompatibility :: "Config \<Rightarrow> error option" where
  "ValidateExecutorShellCompatibility c =
     (if ExecutorType_String (ExecutorType c) = ''base64''
         \<and> ShellType_String (ShellType c) = ''cmd''
      then Some (Errorf ''base64 executor is not compatible with cmd shell. Use powershell or sh instead'')
      else None)"

definition ValidateAction :: "Config \<Rightarrow> error option" where
  "ValidateAction c =
     (if Help c then None
      else case ValidateExecutorShellCompatibility c of
        Some err \<Rightarrow> Some err
      | None \<Rightarrow>
          if Action c = ''execute'' then None
          else if Action c = ''encode'' then
            (if length (Args c) < 2 then Some (Errorf ''usage: go run main.go encode <command>'') else None)
          else if Action c = ''decode'' then
            (if length (Args c) < 2
             then Some (Errorf ''usage: go run main.go decode <base64-encoded-command>'') else None)
          else if Action c = ''info'' then None
          else Some (Errorf (''unknown action: '' @ Action c)))"

text \<open>
  \<open>strings.Join\<close>: nothing for no element, the element itself for one, and
  otherwise the first element followed by the separator and each further element.
\<close>

fun Join_loop :: "string \<Rightarrow> string list \<Rightarrow> string \<Rightarrow> string" where
  "Join_loop b [] sep = b"
| "Join_loop b (s # elems) sep = Join_loop (b @ sep @ s) elems sep"

fun Join :: "string list \<Rightarrow> string \<Rightarrow> string" where
  "Join [] sep = []"
| "Join [e] sep = e"
| "Join (e # elems) sep = Join_loop e elems sep"

definition GetCommand :: "Config \<Rightarrow> string" where
  "GetCommand c = (if length (Args c) < 2 then [] else Join (drop 1 (Args c)) '' '')"

text \<open>
  \<open>main\<close>, from the choice of the shell to the construction of the strategy
  (the shell override for the base64 executor, then the factory call).
\<close>

definition main_shellType :: "string \<Rightarrow> Config \<Rightarrow> ShellType" where
  "main_shellType goos config =
     (if ExecutorType config = Base64Type \<and> ShellType config = AutoShell \<and> IsWindows goos
      then PowerShellShell else ShellType config)"

definition main_cmdExecutor :: "string \<Rightarrow> Config \<Rightarrow> CommandExecutor" where
  "main_cmdExecutor goos config =
     CreateExecutorWithShell goos (ExecutorType config) (main_shellType goos config)"

section \<open>Notions of the specification\<close>

text \<open>
  The arguments joined with single spaces, as the specification words it: one space
  between two neighbours, none before the first or after the last.
\<close>

fun space_joined :: "string list \<Rightarrow> string" where
  "space_joined [] = []"
| "space_joined [x] = x"
| "space_joined (x # y # ys) = x @ '' '' @ space_joined (y # ys)"

text \<open>
  The UTF-16 little-endian byte sequence of a sequence of code units: two bytes per
  unit, low byte first.
\<close>

definition utf16le :: "nat list \<Rightarrow> string" where
  "utf16le units = concat (map (\<lambda>u. [char_of (u mod 256), char_of (u div 256 mod 256)]) units)"

text \<open>
  Valid base64 in the standard alphabet with padding: groups of four characters of
  the alphabet, where the last group may end in one or two padding characters.
  A character outside the alphabet, a length that is no multiple of four, or padding
  anywhere else makes the text invalid.
\<close>

definition in_alphabet :: "char \<Rightarrow> bool" where
  "in_alphabet c = (c \<in> set encodeStd)"

fun valid_base64 :: "string \<Rightarrow> bool" where
  "valid_base64 [] = True"
| "valid_base64 (a # b # c # d # rest) =
     (in_alphabet a \<and> in_alphabet b \<and>
      (if rest = []
       then (in_alphabet c \<and> (in_alphabet d \<or> d = padChar)) \<or> (c = padChar \<and> d = padChar)
       else in_alphabet c \<and> in_alphabet d \<and> valid_base64 rest))"
| "valid_base64 _ = False"

text \<open>
  The bytes that a valid base64 text stands for: each group gives the bytes of its
  six-bit values, the values being the positions of its characters in the alphabet.
\<close>

definition sextet :: "char \<Rightarrow> nat" where
  "sextet c = (case decodeMap c of Some v \<Rightarrow> v | None \<Rightarrow> 0)"

fun base64_bytes :: "string \<Rightarrow> string" where
  "base64_bytes (a # b # c # d # rest) =
     quantum_bytes (map sextet (takeWhile (\<lambda>x. x \<noteq> padChar) [a, b, c, d])) @ base64_bytes rest"
| "base64_bytes _ = []"

definition std_decode :: "string \<Rightarrow> string option" where
  "std_decode x = (if valid_base64 x then Some (base64_bytes x) else None)"

text \<open>The input without its carriage returns and line feeds.\<close>

definition strip_newlines :: "string \<Rightarrow> string" where
  "strip_newlines s = filter (\<lambda>c. \<not> is_newline c) s"

text \<open>What a decoding gives when the error itself is of no interest.\<close>

definition outcome :: "error + string \<Rightarrow> string option" where
  "outcome r = (case r of Inl _ \<Rightarrow> None | Inr t \<Rightarrow> Some t)"

text \<open>
  Running one command: the command is recorded, and a failure of the run is wrapped
  with the given prefix.
\<close>

definition run_wrapped :: "runner \<Rightarrow> string \<Rightarrow> Cmd \<Rightarrow> Cmd list \<times> error option" where
  "run_wrapped run prefix cmd =
     (case run cmd of Some err \<Rightarrow> ([cmd], Some (Wrapped prefix err)) | None \<Rightarrow> ([cmd], None))"

section \<open>Auxiliary lemmas\<close>

subsection \<open>Joining\<close>

lemma Join_loop_eq: "Join_loop b elems sep = b @ concat (map (\<lambda>s. sep @ s) elems)"
  by (induction elems arbitrary: b) simp_all

lemma space_joined_Cons: "space_joined (x # xs) = x @ concat (map (\<lambda>s. '' '' @ s) xs)"
  by (induction xs arbitrary: x) simp_all

lemma Join_space: "Join elems '' '' = space_joined elems"
proof (cases elems)
  case Nil
  then show ?thesis by simp
next
  case (Cons e es)
  then show ?thesis
    by (cases es) (simp_all add: Join_loop_eq space_joined_Cons)
qed

subsection \<open>The byte loop of the PowerShell encoding\<close>

lemma utf16Bytes_loop_eq:
  "length buf = i * 2 + length units * 2 \<Longrightarrow>
   utf16Bytes_loop units i buf = take (i * 2) buf @ utf16le units"
proof (induction units arbitrary: i buf)
  case Nil
  then show ?case by (simp add: utf16le_def)
next
  case (Cons u units)
  let ?lo = "char_of (u mod 256)" and ?hi = "char_of (u div 256 mod 256)"
  let ?buf = "buf[i * 2 := ?lo, i * 2 + 1 := ?hi]"
  have len: "length ?buf = (i + 1) * 2 + length units * 2"
    using Cons.prems by simp
  have "take ((i + 1) * 2) ?buf = take (i * 2) buf @ [?lo, ?hi]"
  proof (rule nth_equalityI)
    show "length (take ((i + 1) * 2) ?buf) = length (take (i * 2) buf @ [?lo, ?hi])"
      using Cons.prems by simp
  next
    fix k assume "k < length (take ((i + 1) * 2) ?buf)"
    then have k: "k < i * 2 + 2" by simp
    show "take ((i + 1) * 2) ?buf ! k = (take (i * 2) buf @ [?lo, ?hi]) ! k"
    proof -
      consider "k < i * 2" | "k = i * 2" | "k = i * 2 + 1" using k by linarith
      then show ?thesis
      proof cases
        case 1
        then show ?thesis using Cons.prems by (simp add: nth_append)
      next
        case 2
        then show ?thesis using Cons.prems by (simp add: nth_append)
      next
        case 3
        then show ?thesis using Cons.prems by (simp add: nth_append)
      qed
    qed
  qed
  then show ?case
    using Cons.IH [OF len] by (simp add: utf16le_def)
qed

lemma encodeForPowerShell_eq:
  "encodeForPowerShell command = EncodeToString (utf16le (utf16_Encode (stringToRunes command)))"
  by (simp add: encodeForPowerShell_def Let_def utf16Bytes_loop_eq)

subsection \<open>The alphabet and its inverse\<close>

lemma length_encodeStd: "length encodeStd = 64"
  by (simp add: encodeStd_def)

lemma distinct_encodeStd: "distinct encodeStd"
  by (simp add: encodeStd_def)

lemma decodeMap_enc6: "v < 64 \<Longrightarrow> decodeMap (enc6 v) = Some v"
  unfolding decodeMap_def enc6_def
  using map_of_zip_nth [of encodeStd "[0..<64]" v]
  by (simp add: length_encodeStd distinct_encodeStd)

lemma decodeMap_SomeD: "decodeMap c = Some v \<Longrightarrow> v < 64 \<and> enc6 v = c"
proof -
  assume "decodeMap c = Some v"
  then have "(c, v) \<in> set (zip encodeStd [0..<64])"
    unfolding decodeMap_def by (rule map_of_SomeD)
  then obtain i where "i < 64" "encodeStd ! i = c" "[0..<64] ! i = v"
    by (auto simp: in_set_zip length_encodeStd)
  then show ?thesis by (simp add: enc6_def)
qed

lemma decodeMap_None_iff: "decodeMap c = None \<longleftrightarrow> \<not> in_alphabet c"
proof -
  have "fst ` set (zip encodeStd [0..<64]) = set (map fst (zip encodeStd [0..<64]))"
    by simp
  also have "\<dots> = set encodeStd"
    by (simp only: map_fst_zip length_encodeStd length_upt)
  finally show ?thesis
    unfolding decodeMap_def in_alphabet_def by (simp only: map_of_eq_None_iff)
qed

lemma in_alphabet_enc6: "v < 64 \<Longrightarrow> in_alphabet (enc6 v)"
  using decodeMap_enc6 [of v] decodeMap_None_iff [of "enc6 v"] by auto

lemma sextet_enc6: "v < 64 \<Longrightarrow> sextet (enc6 v) = v"
  by (simp add: sextet_def decodeMap_enc6)

lemma not_alphabet_special:
  "\<not> in_alphabet padChar" "\<not> in_alphabet (CHR 0x0A)" "\<not> in_alphabet (CHR 0x0D)"
  "\<not> in_alphabet (CHR 0x27)"
  by (simp_all add: in_alphabet_def encodeStd_def padChar_def)

lemma pad_not_newline: "\<not> is_newline padChar"
  by (simp add: is_newline_def padChar_def)

lemma newline_not_alphabet: "is_newline c \<Longrightarrow> \<not> in_alphabet c"
  by (auto simp: is_newline_def not_alphabet_special)

lemma skip_newlines_Nil:
  "skip_newlines src si = ([], si') \<Longrightarrow> strip_newlines src = []"
  by (induction src arbitrary: si) (auto simp: strip_newlines_def split: if_splits)

lemma skip_newlines_Cons:
  "skip_newlines src si = (c # src', si') \<Longrightarrow>
     \<not> is_newline c \<and> strip_newlines src = c # strip_newlines src'"
  by (induction src arbitrary: si) (auto simp: strip_newlines_def split: if_splits)

lemma valid_base64_chars:
  "valid_base64 x \<Longrightarrow> c \<in> set x \<Longrightarrow> in_alphabet c \<or> c = padChar"
  by (induction x rule: valid_base64.induct) (auto split: if_splits)

lemma dbuf_shape:
  "length (dbuf :: nat list) < 4 \<Longrightarrow>
   dbuf = [] \<or> (\<exists>v0. dbuf = [v0]) \<or> (\<exists>v0 v1. dbuf = [v0, v1]) \<or> (\<exists>v0 v1 v2. dbuf = [v0, v1, v2])"
  by (cases dbuf; simp; rename_tac a as; case_tac as; simp;
      rename_tac b bs; case_tac bs; simp)

lemma strip_newlines_Cons:
  "strip_newlines (c # s) = (if is_newline c then strip_newlines s else c # strip_newlines s)"
  by (simp add: strip_newlines_def)

lemma enc6_not_pad: "v < 64 \<Longrightarrow> enc6 v \<noteq> padChar"
  using in_alphabet_enc6 [of v] not_alphabet_special(1) by auto

lemma valid_base64_head:
  "valid_base64 (a # rest) \<Longrightarrow> in_alphabet a \<and> (\<exists>b rest'. rest = b # rest' \<and> in_alphabet b)"
  by (cases "a # rest" rule: valid_base64.cases) auto

lemma Decode_outcome:
  "length dbuf < 4 \<Longrightarrow> (\<And>v. v \<in> set dbuf \<Longrightarrow> v < 64) \<Longrightarrow>
   outcome (Decode dbuf si s) = std_decode (map enc6 dbuf @ strip_newlines s)"
proof (induction s arbitrary: dbuf si)
  case Nil
  from dbuf_shape [OF Nil.prems(1)] show ?case
    by (auto simp: outcome_def std_decode_def strip_newlines_def)
next
  case (Cons c src)
  note shape = dbuf_shape [OF Cons.prems(1)]
  show ?case
  proof (cases "decodeMap c")
    case (Some out)
    from decodeMap_SomeD [OF Some] have out: "out < 64" "enc6 out = c" by simp_all
    then have alpha: "in_alphabet c" using in_alphabet_enc6 by blast
    then have nonl: "\<not> is_newline c" using newline_not_alphabet by blast
    show ?thesis
    proof (cases "length dbuf = 3")
      case True
      then obtain v0 v1 v2 where dbuf: "dbuf = [v0, v1, v2]"
        using shape by auto
      have v: "v0 < 64" "v1 < 64" "v2 < 64" using Cons.prems(2) dbuf by simp_all
      have IH: "outcome (Decode [] (si + 1) src) = std_decode (strip_newlines src)"
        using Cons.IH [of "[]" "si + 1"] by simp
      show ?thesis
        using IH Some alpha nonl v out
        by (auto simp: dbuf outcome_def std_decode_def strip_newlines_Cons in_alphabet_enc6
              sextet_enc6 enc6_not_pad split: sum.splits if_splits)
    next
      case False
      have "outcome (Decode (dbuf @ [out]) (si + 1) src)
            = std_decode (map enc6 (dbuf @ [out]) @ strip_newlines src)"
        using Cons.prems False out by (intro Cons.IH) auto
      then show ?thesis
        using Some False nonl out by (simp add: strip_newlines_Cons)
    qed
  next
    case None
    then have nalpha: "\<not> in_alphabet c" by (simp add: decodeMap_None_iff)
    show ?thesis
    proof (cases "is_newline c")
      case True
      then show ?thesis
        using None Cons.IH [OF Cons.prems, of "si + 1"] by (simp add: strip_newlines_Cons)
    next
      case nonl: False
      show ?thesis
      proof (cases "c = padChar")
        case False
        have "\<not> valid_base64 (map enc6 dbuf @ c # strip_newlines src)"
          using valid_base64_chars [of "map enc6 dbuf @ c # strip_newlines src" c] nalpha False
          by auto
        then show ?thesis
          using None nonl False by (simp add: strip_newlines_Cons outcome_def std_decode_def)
      next
        case True
        note pad = True
        have none: "decodeMap padChar = None" using None pad by simp
        consider (short) "length dbuf < 2" | (two) v0 v1 where "dbuf = [v0, v1]"
          | (three) v0 v1 v2 where "dbuf = [v0, v1, v2]"
          using shape by auto
        then show ?thesis
        proof cases
          case short
          have "\<not> valid_base64 (map enc6 dbuf @ padChar # strip_newlines src)"
          proof
            assume val: "valid_base64 (map enc6 dbuf @ padChar # strip_newlines src)"
            from short shape consider "dbuf = []" | v0 where "dbuf = [v0]" by auto
            then show False
            proof cases
              case 1
              then show False
                using valid_base64_head [of padChar "strip_newlines src"] val
                  not_alphabet_special(1) by simp
            next
              case 2
              then show False
                using valid_base64_head [of "enc6 v0" "padChar # strip_newlines src"] val
                  not_alphabet_special(1) by simp
            qed
          qed
          then show ?thesis
            using none pad short pad_not_newline
            by (simp add: strip_newlines_Cons outcome_def std_decode_def)
        next
          case two
          have v: "v0 < 64" "v1 < 64" using Cons.prems(2) two by simp_all
          obtain r1 s1 where sk1: "skip_newlines src (si + 1) = (r1, s1)" by force
          show ?thesis
          proof (cases r1)
            case Nil
            then have "strip_newlines src = []" using sk1 skip_newlines_Nil by blast
            then show ?thesis
              using none pad two sk1 Nil pad_not_newline
              by (simp add: strip_newlines_Cons outcome_def std_decode_def)
          next
            case (Cons c' src')
            then have c': "\<not> is_newline c'" "strip_newlines src = c' # strip_newlines src'"
              using sk1 skip_newlines_Cons by blast+
            show ?thesis
            proof (cases "c' = padChar")
              case False
              then show ?thesis
                using none pad two sk1 Cons c' pad_not_newline not_alphabet_special(1)
                by (simp add: strip_newlines_Cons outcome_def std_decode_def)
            next
              case True
              obtain r2 s2 where sk2: "skip_newlines src' (s1 + 1) = (r2, s2)" by force
              show ?thesis
              proof (cases r2)
                case Nil
                then have "strip_newlines src' = []" using sk2 skip_newlines_Nil by blast
                then show ?thesis
                  using none pad two sk1 sk2 Cons Nil c' True v pad_not_newline
                    not_alphabet_special(1)
                  by (simp add: strip_newlines_Cons outcome_def std_decode_def
                        in_alphabet_enc6 sextet_enc6 enc6_not_pad)
              next
                case (Cons c'' src'')
                then have "strip_newlines src' = c'' # strip_newlines src''"
                  using sk2 skip_newlines_Cons by blast
                then show ?thesis
                  using none pad two sk1 sk2 \<open>r1 = c' # src'\<close> Cons c' True v pad_not_newline
                    not_alphabet_special(1)
                  by (simp add: strip_newlines_Cons outcome_def std_decode_def)
              qed
            qed
          qed
        next
          case three
          have v: "v0 < 64" "v1 < 64" "v2 < 64" using Cons.prems(2) three by simp_all
          obtain r1 s1 where sk1: "skip_newlines src (si + 1) = (r1, s1)" by force
          show ?thesis
          proof (cases r1)
            case Nil
            then have "strip_newlines src = []" using sk1 skip_newlines_Nil by blast
            then show ?thesis
              using none pad three sk1 Nil v pad_not_newline not_alphabet_special(1)
              by (simp add: strip_newlines_Cons outcome_def std_decode_def
                    in_alphabet_enc6 sextet_enc6 enc6_not_pad)
          next
            case (Cons c' src')
            then have "strip_newlines src = c' # strip_newlines src'"
              using sk1 skip_newlines_Cons by blast
            then show ?thesis
              using none pad three sk1 Cons v pad_not_newline not_alphabet_special(1)
              by (simp add: strip_newlines_Cons outcome_def std_decode_def)
          qed
        qed
      qed
    qed
  qed
qed

subsection \<open>Six-bit values and bytes; the encoder's output\<close>

lemma sextets_recombine:
  fixes val :: nat
  assumes "val < 16777216"
  shows "val div 262144 mod 64 * 262144 + val div 4096 mod 64 * 4096 + val div 64 mod 64 * 64 + val mod 64 = val"
proof -
  define q1 where "q1 = val div 64"
  define q2 where "q2 = q1 div 64"
  define q3 where "q3 = q2 div 64"
  have e2: "val div 4096 = q2"
    unfolding q2_def q1_def by (simp add: div_mult2_eq)
  have e3: "val div 262144 = q3"
    unfolding q3_def q2_def q1_def by (simp add: div_mult2_eq)
  have "q3 < 64" using assms unfolding e3 [symmetric] by simp
  then have m3: "q3 mod 64 = q3" by simp
  have d2: "q2 = q3 * 64 + q2 mod 64" unfolding q3_def by simp
  have d1: "q1 = q2 * 64 + q1 mod 64" unfolding q2_def by simp
  have d0: "val = q1 * 64 + val mod 64" unfolding q1_def by simp
  define r2 where "r2 = q2 mod 64"
  define r1 where "r1 = q1 mod 64"
  define r0 where "r0 = val mod 64"
  have "q3 * 262144 + r2 * 4096 + r1 * 64 + r0 = val"
    using d2 d1 d0 unfolding r2_def [symmetric] r1_def [symmetric] r0_def [symmetric] by linarith
  then show ?thesis
    unfolding e2 e3 m3 r2_def r1_def r0_def q1_def [symmetric] by simp
qed

lemma char_of_of_char_plus: "char_of (k * 256 + of_char c :: nat) = c"
  by (simp add: char_of_eq_iff take_bit_eq_mod)

lemma div_add_small: "r < n \<Longrightarrow> (q * n + r) div n = (q::nat)"
  by simp

lemma quantum_bytes_4_eq:
  "d0 * 262144 + d1 * 4096 + d2 * 64 + d3 = val \<Longrightarrow>
   quantum_bytes [d0, d1, d2, d3] = [char_of (val div 65536), char_of (val div 256), char_of val]"
  by (auto simp: quantum_bytes_def Let_def)

lemma quantum_bytes_3_eq:
  "d0 * 262144 + d1 * 4096 + d2 * 64 = val \<Longrightarrow>
   quantum_bytes [d0, d1, d2] = [char_of (val div 65536), char_of (val div 256)]"
  by (auto simp: quantum_bytes_def Let_def)

lemma quantum_bytes_2_eq:
  "d0 * 262144 + d1 * 4096 = val \<Longrightarrow>
   quantum_bytes [d0, d1] = [char_of (val div 65536)]"
  by (auto simp: quantum_bytes_def Let_def)

lemma quantum_bytes_3:
  fixes a b c :: char
  defines "val \<equiv> of_char a * 65536 + of_char b * 256 + (of_char c :: nat)"
  shows "quantum_bytes [val div 262144 mod 64, val div 4096 mod 64, val div 64 mod 64, val mod 64]
         = [a, b, c]"
proof -
  have a: "(of_char a :: nat) < 256" and b: "(of_char b :: nat) < 256"
    and c: "(of_char c :: nat) < 256" by simp_all
  have lt: "val < 16777216" unfolding val_def using a b c by linarith
  have "of_char b * 256 + (of_char c :: nat) < 65536" using b c by linarith
  from div_add_small [OF this, of "of_char a"]
  have d16: "val div 65536 = of_char a" unfolding val_def by (simp add: add.assoc)
  from div_add_small [OF c, of "of_char a * 256 + of_char b"]
  have d8: "val div 256 = of_char a * 256 + of_char b"
    unfolding val_def by (simp add: algebra_simps)
  have c16: "char_of (val div 65536) = a" unfolding d16 by simp
  have c8: "char_of (val div 256) = b" unfolding d8 by (rule char_of_of_char_plus)
  have c0: "char_of val = c"
    using char_of_of_char_plus [of "of_char a * 256 + of_char b" c]
    by (simp add: val_def algebra_simps)
  show ?thesis
    unfolding quantum_bytes_4_eq [OF sextets_recombine [OF lt]] c16 c8 c0 ..
qed

lemma quantum_bytes_2:
  fixes a b :: char
  defines "val \<equiv> of_char a * 65536 + (of_char b :: nat) * 256"
  shows "quantum_bytes [val div 262144 mod 64, val div 4096 mod 64, val div 64 mod 64] = [a, b]"
proof -
  have a: "(of_char a :: nat) < 256" and b: "(of_char b :: nat) < 256" by simp_all
  have lt: "val < 16777216" unfolding val_def using a b by linarith
  have m: "val mod 64 = 0" unfolding val_def by simp
  have "(of_char b :: nat) * 256 < 65536" using b by linarith
  from div_add_small [OF this, of "of_char a"]
  have d16: "val div 65536 = of_char a" unfolding val_def by simp
  have d8: "val div 256 = of_char a * 256 + of_char b" unfolding val_def by simp
  have c16: "char_of (val div 65536) = a" unfolding d16 by simp
  have c8: "char_of (val div 256) = b" unfolding d8 by (rule char_of_of_char_plus)
  have "val div 262144 mod 64 * 262144 + val div 4096 mod 64 * 4096 + val div 64 mod 64 * 64 = val"
    using sextets_recombine [OF lt] by (simp only: m add_0_right)
  from quantum_bytes_3_eq [OF this] show ?thesis
    unfolding c16 c8 .
qed

lemma quantum_bytes_1:
  fixes a :: char
  defines "val \<equiv> (of_char a :: nat) * 65536"
  shows "quantum_bytes [val div 262144 mod 64, val div 4096 mod 64] = [a]"
proof -
  have a: "(of_char a :: nat) < 256" by simp
  have lt: "val < 16777216" unfolding val_def using a by linarith
  have m: "val mod 64 = 0" unfolding val_def by simp
  have "val div 64 = of_char a * 16 * 64" unfolding val_def by simp
  then have m2: "val div 64 mod 64 = 0" by simp
  have d16: "val div 65536 = of_char a" unfolding val_def by simp
  have c16: "char_of (val div 65536) = a" unfolding d16 by simp
  have "val div 262144 mod 64 * 262144 + val div 4096 mod 64 * 4096 = val"
    using sextets_recombine [OF lt] by (simp only: m m2 mult_zero_left add_0_right)
  from quantum_bytes_2_eq [OF this] show ?thesis
    unfolding c16 .
qed

lemma EncodeToString_chars:
  "c \<in> set (EncodeToString bs) \<Longrightarrow> in_alphabet c \<or> c = padChar"
  by (induction bs rule: EncodeToString.induct) (auto simp: Let_def in_alphabet_enc6)

lemma strip_newlines_EncodeToString: "strip_newlines (EncodeToString bs) = EncodeToString bs"
  unfolding strip_newlines_def
  using EncodeToString_chars newline_not_alphabet pad_not_newline
  by (intro filter_True) blast

lemma EncodeToString_valid: "valid_base64 (EncodeToString bs)"
  by (induction bs rule: EncodeToString.induct) (simp_all add: Let_def in_alphabet_enc6)

lemma EncodeToString_bytes: "base64_bytes (EncodeToString bs) = bs"
proof (induction bs rule: EncodeToString.induct)
  case 1
  show ?case by simp
next
  case (2 s0)
  show ?case
    using quantum_bytes_1 [of s0] by (simp add: Let_def sextet_enc6 enc6_not_pad)
next
  case (3 s0 s1)
  show ?case
    using quantum_bytes_2 [of s0 s1] by (simp add: Let_def sextet_enc6 enc6_not_pad)
next
  case (4 s0 s1 s2 src)
  then show ?case
    using quantum_bytes_3 [of s0 s1 s2] by (simp add: Let_def sextet_enc6 enc6_not_pad)
qed

lemma DecodeString_outcome:
  "outcome (DecodeString s) = std_decode (strip_newlines s)"
  using Decode_outcome [of "[]" 0 s] by (simp add: DecodeString_def)

lemma DecodeString_EncodeToString: "DecodeString (EncodeToString bs) = Inr bs"
  using DecodeString_outcome [of "EncodeToString bs"]
  by (simp add: strip_newlines_EncodeToString std_decode_def EncodeToString_valid
        EncodeToString_bytes outcome_def split: sum.splits)

subsection \<open>Decoding errors and the default command\<close>

lemma Decode_error_form:
  "Decode dbuf si s = Inl e \<Longrightarrow> \<exists>n. e = CorruptInputError n"
  by (induction s arbitrary: dbuf si e)
     (auto split: if_splits option.splits sum.splits prod.splits list.splits)

lemma DecodeCommand_outcome:
  "outcome (Base64Executor_DecodeCommand be s) = std_decode (strip_newlines s)"
  using DecodeString_outcome [of s]
  by (simp add: Base64Executor_DecodeCommand_def outcome_def split: sum.splits)

lemma DecodeCommand_error_form:
  "Base64Executor_DecodeCommand be s = Inl e \<Longrightarrow>
   \<exists>n. e = Wrapped ''failed to decode base64: '' (CorruptInputError n)"
  using Decode_error_form [of "[]" 0 s]
  by (auto simp: Base64Executor_DecodeCommand_def DecodeString_def split: sum.splits)

lemma getDefaultBase64Command_eq:
  "getDefaultBase64Command goos =
     (if IsWindows goos then EncodeToString (utf16le (utf16_Encode (stringToRunes ''ipconfig'')))
      else EncodeToString ''ifconfig'')"
  using encodeForPowerShell_eq [of "''ipconfig''"]
  by (simp only: getDefaultBase64Command_def encodeForPowerShell_def Let_def)

lemma ipconfig_utf16: "getDefaultBase64Command ''windows'' = ''aQBwAGMAbwBuAGYAaQBnAA==''"
  by (simp add: getDefaultBase64Command_eq IsWindows_def utf16le_def enc6_def encodeStd_def padChar_def)

lemma ifconfig_utf8: "getDefaultBase64Command ''linux'' = ''aWZjb25maWc=''"
  by (simp add: getDefaultBase64Command_eq IsWindows_def enc6_def encodeStd_def padChar_def)

subsection \<open>Execution by the stored shell type\<close>

text \<open>
  What the base64 strategy does with a non-empty command, by the shell type it
  stores: for PowerShell and sh it runs the base64 invocation of the command as it
  is; for cmd and the automatic shell it decodes, returns a decoding failure without
  running anything, and otherwise runs the plaintext invocation of the decoded text,
  as the plain strategy with the same shell type does for a non-empty text.
\<close>

lemma ExecuteCommand_by_stored_shellType:
  assumes "encodedCommand \<noteq> []"
  shows "(be_shellType be = PowerShellShell \<or> be_shellType be = ShShell \<longrightarrow>
            Base64Executor_ExecuteCommand goos run be encodedCommand
            = run_wrapped run ''base64 command execution failed: ''
                (GetShellCommandForBase64 goos encodedCommand (be_shellType be)))
       \<and> (be_shellType be = CMDShell \<or> be_shellType be = AutoShell \<longrightarrow>
            (\<forall>err. DecodeString encodedCommand = Inl err \<longrightarrow>
               Base64Executor_ExecuteCommand goos run be encodedCommand
               = ([], Some (Wrapped ''failed to decode base64: ''
                              (Wrapped ''failed to decode base64: '' err))))
          \<and> (\<forall>decoded. DecodeString encodedCommand = Inr decoded \<longrightarrow>
               Base64Executor_ExecuteCommand goos run be encodedCommand
               = run_wrapped run ''command execution failed: ''
                   (GetShellCommand goos decoded (be_shellType be))
             \<and> (decoded \<noteq> [] \<and> pe_shellType pe = be_shellType be \<longrightarrow>
                  Base64Executor_ExecuteCommand goos run be encodedCommand
                  = PlainExecutor_ExecuteCommand goos run pe decoded)))"
  using assms
  by (cases "be_shellType be")
     (auto simp: Base64Executor_ExecuteCommand_def executeBase64CommandDirect_def
        Base64Executor_executeCommand_def Base64Executor_DecodeCommand_def run_wrapped_def
        PlainExecutor_ExecuteCommand_def PlainExecutor_executeCommand_def Let_def
        split: option.splits)

subsection \<open>Test vectors and scenarios\<close>

text \<open>
  The encoder on the test vectors of RFC 4648, and the scenarios that the
  specification lists for the strategies.
\<close>

lemma EncodeToString_test_vectors:
  "EncodeToString [] = []"
  "EncodeToString ''f'' = ''Zg==''"
  "EncodeToString ''fo'' = ''Zm8=''"
  "EncodeToString ''foo'' = ''Zm9v''"
  "EncodeToString ''foob'' = ''Zm9vYg==''"
  "EncodeToString ''fooba'' = ''Zm9vYmE=''"
  "EncodeToString ''foobar'' = ''Zm9vYmFy''"
  by (simp_all add: enc6_def encodeStd_def padChar_def)

lemma scenario_encode_dir:
  "shellType \<noteq> PowerShellShell \<Longrightarrow>
   EncodeCommand (CreateExecutorWithShell goos Base64Type shellType) ''dir'' = ''ZGly''"
  by (simp add: CreateExecutorWithShell_def NewBase64ExecutorWithShell_def
        Base64Executor_EncodeCommand_def enc6_def encodeStd_def)

lemma scenario_decode_dir:
  "DecodeCommand (CreateExecutorWithShell goos Base64Type shellType) ''ZGly'' = Inr ''dir''"
  by (simp add: CreateExecutorWithShell_def NewBase64ExecutorWithShell_def
        Base64Executor_DecodeCommand_def DecodeString_def decodeMap_def encodeStd_def
        padChar_def is_newline_def quantum_bytes_def upt_rec char_of_eq_iff)

lemma scenario_plain_sh:
  "ExecuteCommand goos run (CreateExecutorWithShell goos PlainType ShShell) ''echo hi''
   = run_wrapped run ''command execution failed: ''
       \<lparr>program = ''sh'', arguments = [''-c'', ''echo hi'']\<rparr>"
  by (simp add: CreateExecutorWithShell_def NewPlainExecutorWithShell_def
        PlainExecutor_ExecuteCommand_def PlainExecutor_executeCommand_def run_wrapped_def
        GetShellCommand_def Command_def Let_def)

lemma scenario_base64_cmd_rejected:
  "\<not> Help c \<Longrightarrow> ExecutorType c = Base64Type \<Longrightarrow> ShellType c = CMDShell \<Longrightarrow>
   ValidateAction c
   = Some (Errorf ''base64 executor is not compatible with cmd shell. Use powershell or sh instead'')"
  by (simp add: ValidateAction_def ValidateExecutorShellCompatibility_def)

section \<open>The claims\<close>

text \<open>
  C1.  The compatibility validator returns an error exactly for the pair of the
  base64 executor and the cmd shell, and the error is the message that the base64
  executor is not compatible with the cmd shell; every other pair of an executor
  type and a shell type gives no error.
\<close>

theorem ValidateExecutorShellCompatibility_only_base64_cmd:
  "ValidateExecutorShellCompatibility c =
     (if ExecutorType c = Base64Type \<and> ShellType c = CMDShell
      then Some (Errorf ''base64 executor is not compatible with cmd shell. Use powershell or sh instead'')
      else None)"
  by (cases "ExecutorType c"; cases "ShellType c")
     (simp_all add: ValidateExecutorShellCompatibility_def)

text \<open>
  C2.  The base64 strategy chooses between handing the encoded payload to the
  shell and decoding it first by its stored shell type, not by the shell that the
  type resolves to.  On a Linux host the automatic shell resolves to sh, and the
  base64 builder makes of it the same pipeline as of sh; yet a strategy with the
  automatic shell decodes the non-empty command \<open>ZGly\<close> itself and runs
  \<open>sh -c dir\<close>, and on the command \<open>Z\<close> it returns the decoding error and runs
  nothing, where the strategy with sh hands both commands, still encoded, to the
  pipeline.
\<close>

theorem auto_resolved_to_sh_decodes_locally:
  "''ZGly'' \<noteq> []
   \<and> GetShellCommandForBase64 ''linux'' ''ZGly'' AutoShell
       = GetShellCommandForBase64 ''linux'' ''ZGly'' ShShell
   \<and> Base64Executor_ExecuteCommand ''linux'' (\<lambda>cmd. None)
        (NewBase64ExecutorWithShell ''linux'' ShShell) ''ZGly''
       = ([\<lparr>program = ''sh'',
            arguments = [''-c'', ''echo '' @ [CHR 0x27] @ ''ZGly'' @ [CHR 0x27] @ '' | base64 -d | sh'']\<rparr>],
          None)
   \<and> Base64Executor_ExecuteCommand ''linux'' (\<lambda>cmd. None)
        (NewBase64ExecutorWithShell ''linux'' AutoShell) ''ZGly''
       = ([\<lparr>program = ''sh'', arguments = [''-c'', ''dir'']\<rparr>], None)
   \<and> Base64Executor_ExecuteCommand ''linux'' (\<lambda>cmd. None)
        (NewBase64ExecutorWithShell ''linux'' ShShell) ''Z''
       = ([\<lparr>program = ''sh'',
            arguments = [''-c'', ''echo '' @ [CHR 0x27] @ ''Z'' @ [CHR 0x27] @ '' | base64 -d | sh'']\<rparr>],
          None)
   \<and> Base64Executor_ExecuteCommand ''linux'' (\<lambda>cmd. None)
        (NewBase64ExecutorWithShell ''linux'' AutoShell) ''Z''
       = ([], Some (Wrapped ''failed to decode base64: ''
                     (Wrapped ''failed to decode base64: '' (CorruptInputError 0))))"
  by (simp add: Base64Executor_ExecuteCommand_def Base64Executor_DecodeCommand_def
        Base64Executor_executeCommand_def executeBase64CommandDirect_def
        NewBase64ExecutorWithShell_def GetShellCommand_def GetShellCommandForBase64_def
        Command_def sh_pipeline_def IsWindows_def DecodeString_def decodeMap_def
        encodeStd_def padChar_def is_newline_def quantum_bytes_def upt_rec char_of_eq_iff)

text \<open>
  C3.  The base64 strategy encodes, for the PowerShell shell, the UTF-16
  little-endian bytes of the command (two bytes per code unit of
  \<open>utf16.Encode([]rune(command))\<close>, low byte first), and for every other shell the
  bytes of the command itself; in both cases with the standard base64 encoder.
\<close>

theorem EncodeCommand_bytes_by_shell:
  "Base64Executor_EncodeCommand be command =
     EncodeToString (if be_shellType be = PowerShellShell
                     then utf16le (utf16_Encode (stringToRunes command))
                     else command)"
  by (simp add: Base64Executor_EncodeCommand_def encodeForPowerShell_eq)

text \<open>
  C4.  Whatever the command, the encoding for a shell other than PowerShell
  consists of characters of the standard alphabet and padding only, holds no single
  quote, and is decoded (by any base64 strategy) to the command itself.
\<close>

theorem utf8_encoding_round_trip:
  "be_shellType be \<noteq> PowerShellShell \<Longrightarrow>
     (\<forall>ch \<in> set (Base64Executor_EncodeCommand be c). ch \<in> set encodeStd \<or> ch = padChar)
   \<and> CHR 0x27 \<notin> set (Base64Executor_EncodeCommand be c)
   \<and> Base64Executor_DecodeCommand be' (Base64Executor_EncodeCommand be c) = Inr c"
  using EncodeToString_chars [of _ c] EncodeToString_chars [of "CHR 0x27" c]
    not_alphabet_special(4)
  by (auto simp: Base64Executor_EncodeCommand_def Base64Executor_DecodeCommand_def
        DecodeString_EncodeToString in_alphabet_def padChar_def)

theorem utf8_encoding_round_trip_witness:
  "be_shellType \<lparr>be_shellType = ShShell, be_defaultCommand = ''aWZjb25maWc=''\<rparr> \<noteq> PowerShellShell
   \<and> Base64Executor_EncodeCommand \<lparr>be_shellType = ShShell, be_defaultCommand = ''aWZjb25maWc=''\<rparr> ''dir''
       = ''ZGly''
   \<and> CHR 0x27 \<notin> set ''ZGly''
   \<and> Base64Executor_DecodeCommand \<lparr>be_shellType = PowerShellShell, be_defaultCommand = []\<rparr> ''ZGly''
       = Inr ''dir''"
proof -
  let ?be = "\<lparr>be_shellType = ShShell, be_defaultCommand = ''aWZjb25maWc=''\<rparr>"
  have sh: "be_shellType ?be \<noteq> PowerShellShell" by simp
  have enc: "Base64Executor_EncodeCommand ?be ''dir'' = ''ZGly''"
    by (simp add: Base64Executor_EncodeCommand_def enc6_def encodeStd_def)
  show ?thesis
    using utf8_encoding_round_trip [OF sh, of "''dir''"
            "\<lparr>be_shellType = PowerShellShell, be_defaultCommand = []\<rparr>"]
    unfolding enc by simp
qed

text \<open>
  C5.  The table of shell invocations: a plaintext payload goes to \<open>cmd /C\<close>,
  \<open>powershell -Command\<close> or \<open>sh -c\<close>; a base64 payload goes to
  \<open>powershell -EncodedCommand\<close>, to \<open>sh -c\<close> with the payload put verbatim between
  single quotes in the pipeline through \<open>base64 -d\<close>, or unchanged to \<open>cmd /C\<close>.
\<close>

theorem shell_invocation_table:
  "GetShellCommand goos payload CMDShell = \<lparr>program = ''cmd'', arguments = [''/C'', payload]\<rparr>
   \<and> GetShellCommand goos payload PowerShellShell
       = \<lparr>program = ''powershell'', arguments = [''-Command'', payload]\<rparr>
   \<and> GetShellCommand goos payload ShShell = \<lparr>program = ''sh'', arguments = [''-c'', payload]\<rparr>
   \<and> GetShellCommandForBase64 goos payload PowerShellShell
       = \<lparr>program = ''powershell'', arguments = [''-EncodedCommand'', payload]\<rparr>
   \<and> GetShellCommandForBase64 goos payload ShShell
       = \<lparr>program = ''sh'',
          arguments = [''-c'', ''echo '' @ [CHR 0x27] @ payload @ [CHR 0x27] @ '' | base64 -d | sh'']\<rparr>
   \<and> GetShellCommandForBase64 goos payload CMDShell
       = \<lparr>program = ''cmd'', arguments = [''/C'', payload]\<rparr>"
  by (simp add: GetShellCommand_def GetShellCommandForBase64_def Command_def sh_pipeline_def)

text \<open>
  C6.  For both builders and every payload, the automatic shell gives on a Windows
  host the invocation of the cmd shell, and on any other host the invocation of sh.
\<close>

theorem auto_shell_resolution:
  "(IsWindows goos \<longrightarrow>
      GetShellCommand goos payload AutoShell = GetShellCommand goos payload CMDShell
    \<and> GetShellCommandForBase64 goos payload AutoShell = GetShellCommandForBase64 goos payload CMDShell)
   \<and> (\<not> IsWindows goos \<longrightarrow>
      GetShellCommand goos payload AutoShell = GetShellCommand goos payload ShShell
    \<and> GetShellCommandForBase64 goos payload AutoShell = GetShellCommandForBase64 goos payload ShShell)"
  by (simp add: GetShellCommand_def GetShellCommandForBase64_def)

theorem auto_shell_resolution_witness:
  "IsWindows ''windows''
   \<and> GetShellCommand ''windows'' ''dir'' AutoShell = GetShellCommand ''windows'' ''dir'' CMDShell
   \<and> GetShellCommandForBase64 ''windows'' ''ZGly'' AutoShell
       = GetShellCommandForBase64 ''windows'' ''ZGly'' CMDShell
   \<and> \<not> IsWindows ''linux''
   \<and> GetShellCommand ''linux'' ''ls'' AutoShell = GetShellCommand ''linux'' ''ls'' ShShell
   \<and> GetShellCommandForBase64 ''linux'' ''bHM='' AutoShell
       = GetShellCommandForBase64 ''linux'' ''bHM='' ShShell"
  using auto_shell_resolution [of "''windows''" "''dir''"]
        auto_shell_resolution [of "''windows''" "''ZGly''"]
        auto_shell_resolution [of "''linux''" "''ls''"]
        auto_shell_resolution [of "''linux''" "''bHM=''"]
  by (simp add: IsWindows_def)

text \<open>
  C7 (as the code has it).  Decoding takes no account of the strategy and its shell
  type.  Carriage returns and line feeds in the input are passed over; the decoding
  succeeds exactly when what remains is valid padded base64 in the standard
  alphabet, and then gives the bytes that text stands for, unchanged, as the
  command; otherwise it gives the wrapped error of the base64 decoder.
\<close>

theorem DecodeCommand_valid_modulo_newlines:
  "(valid_base64 (strip_newlines s) \<longrightarrow>
      Base64Executor_DecodeCommand be s = Inr (base64_bytes (strip_newlines s)))
   \<and> (\<not> valid_base64 (strip_newlines s) \<longrightarrow>
      (\<exists>n. Base64Executor_DecodeCommand be s
            = Inl (Wrapped ''failed to decode base64: '' (CorruptInputError n))))
   \<and> Base64Executor_DecodeCommand be s = Base64Executor_DecodeCommand be' s"
proof (intro conjI impI)
  assume "valid_base64 (strip_newlines s)"
  then show "Base64Executor_DecodeCommand be s = Inr (base64_bytes (strip_newlines s))"
    using DecodeCommand_outcome [of be s]
    by (simp add: std_decode_def outcome_def split: sum.splits)
next
  assume "\<not> valid_base64 (strip_newlines s)"
  then obtain e where "Base64Executor_DecodeCommand be s = Inl e"
    using DecodeCommand_outcome [of be s]
    by (auto simp: std_decode_def outcome_def split: sum.splits)
  then show "\<exists>n. Base64Executor_DecodeCommand be s
            = Inl (Wrapped ''failed to decode base64: '' (CorruptInputError n))"
    using DecodeCommand_error_form by blast
next
  show "Base64Executor_DecodeCommand be s = Base64Executor_DecodeCommand be' s"
    by (simp add: Base64Executor_DecodeCommand_def)
qed

theorem DecodeCommand_valid_modulo_newlines_witness:
  "valid_base64 (strip_newlines ''ZGly'')
   \<and> Base64Executor_DecodeCommand \<lparr>be_shellType = PowerShellShell, be_defaultCommand = []\<rparr> ''ZGly''
       = Inr ''dir''
   \<and> \<not> valid_base64 (strip_newlines ''ZGl'')
   \<and> (\<exists>n. Base64Executor_DecodeCommand \<lparr>be_shellType = ShShell, be_defaultCommand = []\<rparr> ''ZGl''
            = Inl (Wrapped ''failed to decode base64: '' (CorruptInputError n)))"
proof -
  have v1: "valid_base64 (strip_newlines ''ZGly'')"
    by (simp add: strip_newlines_def is_newline_def in_alphabet_def encodeStd_def)
  have b1: "base64_bytes (strip_newlines ''ZGly'') = ''dir''"
    by (simp add: strip_newlines_def is_newline_def padChar_def sextet_def decodeMap_def
          encodeStd_def upt_rec quantum_bytes_def char_of_eq_iff)
  have v2: "\<not> valid_base64 (strip_newlines ''ZGl'')"
    by (simp add: strip_newlines_def is_newline_def)
  show ?thesis
    using DecodeCommand_valid_modulo_newlines [of "''ZGly''"
            "\<lparr>be_shellType = PowerShellShell, be_defaultCommand = []\<rparr>"]
          DecodeCommand_valid_modulo_newlines [of "''ZGl''"
            "\<lparr>be_shellType = ShShell, be_defaultCommand = []\<rparr>"]
          v1 v2 b1
    by simp
qed

text \<open>
  C7 as stated fails on an input with a line feed in it: the line feed is no
  character of the alphabet and the input is not valid base64, yet it is decoded
  without error.
\<close>

theorem DecodeCommand_accepts_line_feed:
  "CHR 0x0A \<in> set [CHR ''Z'', CHR ''G'', CHR 0x0A, CHR ''l'', CHR ''y'']
   \<and> \<not> in_alphabet (CHR 0x0A)
   \<and> \<not> valid_base64 [CHR ''Z'', CHR ''G'', CHR 0x0A, CHR ''l'', CHR ''y'']
   \<and> Base64Executor_DecodeCommand \<lparr>be_shellType = ShShell, be_defaultCommand = ''aWZjb25maWc=''\<rparr>
        [CHR ''Z'', CHR ''G'', CHR 0x0A, CHR ''l'', CHR ''y''] = Inr ''dir''"
  by (simp add: not_alphabet_special Base64Executor_DecodeCommand_def DecodeString_def
        decodeMap_def encodeStd_def padChar_def is_newline_def quantum_bytes_def upt_rec
        char_of_eq_iff in_alphabet_def)

text \<open>
  C8.  The default command of a base64 strategy is chosen by the host alone, not by
  the strategy's shell type.  On Windows a strategy for sh stores the base64 text
  of the UTF-16 bytes of \<open>ipconfig\<close>, where the encoding rule for sh gives the
  base64 text of its UTF-8 bytes, and executing the empty command hands the UTF-16
  payload to the sh pipeline; on Linux a strategy for PowerShell stores the base64
  text of the UTF-8 bytes of \<open>ifconfig\<close>, where the rule for PowerShell gives that
  of its UTF-16 bytes.
\<close>

theorem default_command_encoded_by_host_not_shell:
  "be_defaultCommand (NewBase64ExecutorWithShell ''windows'' ShShell) = ''aQBwAGMAbwBuAGYAaQBnAA==''
   \<and> Base64Executor_EncodeCommand (NewBase64ExecutorWithShell ''windows'' ShShell) ''ipconfig''
       = ''aXBjb25maWc=''
   \<and> Base64Executor_ExecuteCommand ''windows'' (\<lambda>cmd. None)
         (NewBase64ExecutorWithShell ''windows'' ShShell) []
       = ([\<lparr>program = ''sh'',
            arguments = [''-c'', ''echo '' @ [CHR 0x27] @ ''aQBwAGMAbwBuAGYAaQBnAA=='' @ [CHR 0x27]
                                 @ '' | base64 -d | sh'']\<rparr>], None)
   \<and> be_defaultCommand (NewBase64ExecutorWithShell ''linux'' PowerShellShell) = ''aWZjb25maWc=''
   \<and> Base64Executor_EncodeCommand (NewBase64ExecutorWithShell ''linux'' PowerShellShell) ''ifconfig''
       = ''aQBmAGMAbwBuAGYAaQBnAA==''"
  by (simp add: NewBase64ExecutorWithShell_def ipconfig_utf16 ifconfig_utf8
        Base64Executor_EncodeCommand_def Base64Executor_ExecuteCommand_def
        executeBase64CommandDirect_def GetShellCommandForBase64_def Command_def sh_pipeline_def
        encodeForPowerShell_eq utf16le_def enc6_def encodeStd_def padChar_def)

text \<open>
  C9.  For the base64 executor with the automatic shell on a Windows host, the
  entry point hands PowerShell to the factory, and the strategy it gets is a base64
  strategy with shell type PowerShell.  The factory itself binds the executor type
  and the shell type it is given, unchanged.
\<close>

theorem base64_auto_on_windows_uses_powershell:
  "(ExecutorType config = Base64Type \<and> ShellType config = AutoShell \<and> IsWindows goos \<longrightarrow>
      main_shellType goos config = PowerShellShell
    \<and> main_cmdExecutor goos config
        = Base64 \<lparr>be_shellType = PowerShellShell, be_defaultCommand = getDefaultBase64Command goos\<rparr>)
   \<and> CreateExecutorWithShell goos Base64Type shellType
       = Base64 \<lparr>be_shellType = shellType, be_defaultCommand = getDefaultBase64Command goos\<rparr>
   \<and> CreateExecutorWithShell goos PlainType shellType
       = Plain \<lparr>pe_shellType = shellType, pe_defaultCommand = getDefaultPlainCommand goos\<rparr>
   \<and> executor_shellType (CreateExecutorWithShell goos executorType shellType) = shellType"
  by (cases executorType)
     (simp_all add: main_shellType_def main_cmdExecutor_def CreateExecutorWithShell_def
        NewBase64ExecutorWithShell_def NewPlainExecutorWithShell_def)

theorem base64_auto_on_windows_uses_powershell_witness:
  "ExecutorType \<lparr>LogLevel = ERROR, ShellType = AutoShell, ExecutorType = Base64Type,
                  Help = False, Action = ''execute'', Args = [''execute'']\<rparr> = Base64Type
   \<and> ShellType \<lparr>LogLevel = ERROR, ShellType = AutoShell, ExecutorType = Base64Type,
                  Help = False, Action = ''execute'', Args = [''execute'']\<rparr> = AutoShell
   \<and> IsWindows ''windows''
   \<and> main_shellType ''windows''
        \<lparr>LogLevel = ERROR, ShellType = AutoShell, ExecutorType = Base64Type,
         Help = False, Action = ''execute'', Args = [''execute'']\<rparr> = PowerShellShell
   \<and> executor_shellType (main_cmdExecutor ''windows''
        \<lparr>LogLevel = ERROR, ShellType = AutoShell, ExecutorType = Base64Type,
         Help = False, Action = ''execute'', Args = [''execute'']\<rparr>) = PowerShellShell"
  using base64_auto_on_windows_uses_powershell [of
          "\<lparr>LogLevel = ERROR, ShellType = AutoShell, ExecutorType = Base64Type,
            Help = False, Action = ''execute'', Args = [''execute'']\<rparr>" "''windows''"]
  by (simp add: IsWindows_def)

text \<open>
  C10.  The command handed to the strategy is empty when fewer than two positional
  arguments are present, and otherwise the arguments after the action joined with
  single spaces.
\<close>

theorem GetCommand_space_joined:
  "GetCommand c = (if length (Args c) < 2 then [] else space_joined (tl (Args c)))"
  by (simp add: GetCommand_def Join_space drop_Suc)

end
